theory Spec2Isabelle
  imports Complex_Main "HOL-Library.Sublist"
begin

section \<open>Similarity metrics between two source estimates (mne/simulation/metrics.py)\<close>

text \<open>
  The module holds two functions: \<^verbatim>\<open>_check_stc\<close>, which validates that two source
  estimates can be compared, and \<^verbatim>\<open>source_estimate_quantification\<close>, which dispatches
  on a metric name. Both are embedded below, statement by statement.

  Conventions of the embedding:
  \<^item> Python floats are idealised as real numbers: every arithmetic operation is exact
    where the program rounds to a double. A division by zero is kept as an explicit
    value (\<open>NaN\<close>, \<open>PosInf\<close>, \<open>NegInf\<close>) instead of HOL's \<open>x / 0 = 0\<close>.
    The theorems below state which formula a metric computes, which calls raise and
    which return \<open>nan\<close>; an identity that holds for exact arithmetic only (a value that
    is exactly \<open>0\<close> after a square root and a division, exact invariance under
    scaling) is not a property of the program and is not stated.
  \<^item> Every \<^verbatim>\<open>raise ValueError(msg)\<close> is the value \<open>Inl (ValueError msg)\<close>, with the
    message of the source.
  \<^item> A Python function that ends without \<^verbatim>\<open>return\<close> yields \<open>PyNone\<close>.
\<close>

subsection \<open>Values\<close>

datatype error = ValueError string

datatype npfloat = Finite real | PosInf | NegInf | NaN

datatype retval = PyNone | Scalar npfloat | Array1 "npfloat list"

text \<open>
  A two-dimensional numpy array: its shape and its elements in row-major (C) order,
  which is the order \<^verbatim>\<open>flatten()\<close> returns.
\<close>

record ndarray =
  shape :: "nat \<times> nat"
  flat :: "real list"

text \<open>A source estimate, as far as this module reads it: \<^verbatim>\<open>.data\<close> and \<^verbatim>\<open>.times\<close>.\<close>

record stc =
  data :: ndarray
  times_stc :: "real list"

definition wf_ndarray :: "ndarray \<Rightarrow> bool" where
  "wf_ndarray a = (length (flat a) = fst (shape a) * snd (shape a))"

text \<open>
  A source estimate has one time stamp per column of its data matrix
  (shape = number of locations by number of time points).
\<close>

definition wf_stc :: "stc \<Rightarrow> bool" where
  "wf_stc s = (wf_ndarray (data s) \<and> length (times_stc s) = snd (shape (data s)))"

subsection \<open>The numpy and scipy operations the module calls\<close>

text \<open>
  \<^verbatim>\<open>a != b\<close> on one-dimensional arrays: element-wise on equal lengths, a length-one
  operand is broadcast, any other pair of lengths cannot be broadcast.
\<close>

definition np_not_equal :: "real list \<Rightarrow> real list \<Rightarrow> error + bool list" where
  "np_not_equal a b =
     (if length a = length b then Inr (map2 (\<lambda>x y. x \<noteq> y) a b)
      else if length b = 1 then Inr (map (\<lambda>x. x \<noteq> hd b) a)
      else if length a = 1 then Inr (map (\<lambda>y. hd a \<noteq> y) b)
      else Inl (ValueError ''operands could not be broadcast together''))"

text \<open>\<^verbatim>\<open>np.all\<close>: true on the empty array.\<close>

definition np_all :: "bool list \<Rightarrow> bool" where
  "np_all bs = list_all id bs"

text \<open>\<^verbatim>\<open>data1 - data2\<close> and \<^verbatim>\<open>x ** 2\<close>, element-wise; the module subtracts only arrays
  of equal shape (the compatibility check has passed).\<close>

definition np_subtract :: "ndarray \<Rightarrow> ndarray \<Rightarrow> ndarray" where
  "np_subtract a b = \<lparr>shape = shape a, flat = map2 (\<lambda>x y. x - y) (flat a) (flat b)\<rparr>"

definition np_square :: "ndarray \<Rightarrow> ndarray" where
  "np_square a = \<lparr>shape = shape a, flat = map (\<lambda>x. x ^ 2) (flat a)\<rparr>"

text \<open>\<^verbatim>\<open>np.mean\<close> over all elements: the sum divided by the count, \<open>0 / 0\<close> on an
  empty array.\<close>

definition np_mean :: "ndarray \<Rightarrow> npfloat" where
  "np_mean a = (if flat a = [] then NaN
                else Finite (sum_list (flat a) / real (length (flat a))))"

text \<open>\<^verbatim>\<open>np.sqrt\<close>, as the exact square root (the program's value is its rounding).\<close>

fun np_sqrt :: "npfloat \<Rightarrow> npfloat" where
  "np_sqrt (Finite x) = (if x < 0 then NaN else Finite (sqrt x))"
| "np_sqrt PosInf = PosInf"
| "np_sqrt NegInf = NaN"
| "np_sqrt NaN = NaN"

text \<open>\<^verbatim>\<open>scipy.linalg.norm\<close> of a matrix with its default order: the Frobenius norm,
  as the exact square root of the exact sum of squares. The program's norm is a rounded
  double, so that \<^verbatim>\<open>norm(a) * norm(a)\<close> need not equal the sum of squares there.\<close>

definition norm_scipy :: "ndarray \<Rightarrow> real" where
  "norm_scipy a = sqrt (sum_list (map (\<lambda>x. x ^ 2) (flat a)))"

definition flatten :: "ndarray \<Rightarrow> real list" where
  "flatten a = flat a"

definition dot :: "real list \<Rightarrow> real list \<Rightarrow> real" where
  "dot xs ys = sum_list (map2 (\<lambda>x y. x * y) xs ys)"

text \<open>
  \<^verbatim>\<open>np.correlate(a, v)\<close> with its default mode \<^verbatim>\<open>'valid'\<close>: the sliding dot products
  at every lag where the shorter array lies inside the longer one. Empty arguments are
  rejected. On arrays of equal length the result has one element, the dot product.
\<close>

definition np_correlate :: "real list \<Rightarrow> real list \<Rightarrow> error + real list" where
  "np_correlate a v =
     (if a = [] then Inl (ValueError ''first array argument cannot be empty'')
      else if v = [] then Inl (ValueError ''second array argument cannot be empty'')
      else if length v \<le> length a
        then Inr (map (\<lambda>k. dot (drop k a) v) [0..<length a - length v + 1])
        else Inr (rev (map (\<lambda>k. dot (drop k v) a) [0..<length v - length a + 1])))"

text \<open>\<^verbatim>\<open>x / d\<close> on numpy floats: a zero divisor gives \<open>nan\<close> or an infinity, never an
  exception. For a nonzero divisor the quotient is exact here and rounded in the
  program.\<close>

definition np_divide :: "real \<Rightarrow> real \<Rightarrow> npfloat" where
  "np_divide x d =
     (if d \<noteq> 0 then Finite (x / d)
      else if x = 0 then NaN
      else if 0 < x then PosInf else NegInf)"

text \<open>\<^verbatim>\<open>1 - score\<close>.\<close>

fun np_rsub1 :: "npfloat \<Rightarrow> npfloat" where
  "np_rsub1 (Finite x) = Finite (1 - x)"
| "np_rsub1 PosInf = NegInf"
| "np_rsub1 NegInf = PosInf"
| "np_rsub1 NaN = NaN"

subsection \<open>\<^verbatim>\<open>_check_stc\<close>\<close>

definition shape_msg :: string where
  "shape_msg = ''Data in stcs must have the same size''"

definition times_msg :: string where
  "times_msg = ''Times of two stcs must match.''"

definition check_stc :: "stc \<Rightarrow> stc \<Rightarrow> error + unit" where
  "check_stc stc1 stc2 =
     (if shape (data stc1) \<noteq> shape (data stc2) then Inl (ValueError shape_msg)
      else case np_not_equal (times_stc stc1) (times_stc stc2) of
             Inl e \<Rightarrow> Inl e
           | Inr ne \<Rightarrow> if np_all ne then Inl (ValueError times_msg) else Inr ())"

subsection \<open>\<^verbatim>\<open>source_estimate_quantification\<close>\<close>

definition known_metrics :: "string list" where
  "known_metrics = [''rms'', ''cosine'', ''distance_err'', ''weighted_distance_err'']"

definition metric_msg :: string where
  \<open>metric_msg = ''metric must be a str from the known metrics: "rms", "cosine", "distance_err", "weighted_distance_err" or "..."''\<close>

definition src_msg :: string where
  \<open>src_msg = ''The source space src is needed when using "distance_err" or "weighted_distance_err"''\<close>

definition source_estimate_quantification ::
    "stc \<Rightarrow> stc \<Rightarrow> string \<Rightarrow> 'src option \<Rightarrow> error + retval" where
  "source_estimate_quantification stc1 stc2 metric src =
     (if metric \<notin> set known_metrics then Inl (ValueError metric_msg)
      else if metric \<in> set [''distance_err'', ''weighted_distance_err''] \<and> src = None
        then Inl (ValueError src_msg)
      else case check_stc stc1 stc2 of
             Inl e \<Rightarrow> Inl e
           | Inr _ \<Rightarrow>
               let data1 = data stc1; data2 = data stc2 in
               if metric = ''rms''
                 then Inr (Scalar (np_sqrt (np_mean (np_square (np_subtract data1 data2)))))
               else if metric = ''cosine''
                 then (case np_correlate (flatten data1) (flatten data2) of
                         Inl e \<Rightarrow> Inl e
                       | Inr c \<Rightarrow>
                           Inr (Array1 (map (\<lambda>x. np_rsub1
                                  (np_divide x (norm_scipy data1 * norm_scipy data2))) c)))
               else Inr PyNone)"

subsection \<open>The specification's formulas and vocabulary\<close>

text \<open>
  The error kinds of the specification are the four \<^verbatim>\<open>ValueError\<close>s of the module,
  told apart by their messages.
\<close>

definition ShapeMismatch :: error where
  "ShapeMismatch = ValueError shape_msg"

definition TimeMismatch :: error where
  "TimeMismatch = ValueError times_msg"

definition UnknownMetric :: error where
  "UnknownMetric = ValueError metric_msg"

definition MissingSourceSpace :: error where
  "MissingSourceSpace = ValueError src_msg"

text \<open>The specification's \<open>rms\<close>: the square root of the mean of the squared
  element-wise differences.\<close>

definition rms_spec :: "real list \<Rightarrow> real list \<Rightarrow> real" where
  "rms_spec xs ys = sqrt (sum_list (map2 (\<lambda>x y. (x - y) ^ 2) xs ys) / real (length xs))"



definition all_zero :: "ndarray \<Rightarrow> bool" where
  "all_zero a = list_all (\<lambda>x. x = 0) (flat a)"

definition sumsq :: "real list \<Rightarrow> real" where
  "sumsq xs = sum_list (map (\<lambda>x. x ^ 2) xs)"

text \<open>Concrete source estimates are written with \<open>mk_stc shape elements times\<close>.\<close>

definition mk_stc :: "nat \<times> nat \<Rightarrow> real list \<Rightarrow> real list \<Rightarrow> stc" where
  "mk_stc sh xs ts = \<lparr>data = \<lparr>shape = sh, flat = xs\<rparr>, times_stc = ts\<rparr>"

section \<open>Auxiliary facts\<close>

lemma check_stc_shape: "check_stc s1 s2 = Inr () \<Longrightarrow> shape (data s1) = shape (data s2)"
  by (auto simp: check_stc_def split: if_splits)

lemma compatible_length:
  "check_stc s1 s2 = Inr () \<Longrightarrow> wf_stc s1 \<Longrightarrow> wf_stc s2 \<Longrightarrow>
   length (flat (data s1)) = length (flat (data s2))"
  using check_stc_shape [of s1 s2] by (simp add: wf_stc_def wf_ndarray_def)

text \<open>On time arrays of equal length the check raises exactly when every pair of
  corresponding time stamps differs.\<close>

lemma check_stc_times_iff:
  assumes "shape (data s1) = shape (data s2)"
    and "length (times_stc s1) = length (times_stc s2)"
  shows "check_stc s1 s2 = Inl (ValueError times_msg)
         \<longleftrightarrow> list_all2 (\<lambda>x y. x \<noteq> y) (times_stc s1) (times_stc s2)"
  using assms
  by (auto simp: check_stc_def np_not_equal_def np_all_def list_all_iff list_all2_iff)

lemma rms_code:
  assumes "check_stc s1 s2 = Inr ()"
  shows "source_estimate_quantification s1 s2 ''rms'' src =
           Inr (Scalar (np_sqrt (np_mean (np_square (np_subtract (data s1) (data s2))))))"
  using assms by (simp add: source_estimate_quantification_def known_metrics_def)

lemma flat_square_diff:
  "flat (np_square (np_subtract a b)) = map2 (\<lambda>x y. (x - y) ^ 2) (flat a) (flat b)"
  by (simp add: np_square_def np_subtract_def case_prod_unfold comp_def)

lemma mean_square_diff:
  assumes "length (flat a) = length (flat b)" "flat a \<noteq> []"
  shows "np_sqrt (np_mean (np_square (np_subtract a b))) = Finite (rms_spec (flat a) (flat b))"
proof -
  let ?sq = "map2 (\<lambda>x y. (x - y) ^ 2) (flat a) (flat b)"
  have nn: "0 \<le> sum_list ?sq"
    by (auto intro!: sum_list_nonneg)
  have ne: "?sq \<noteq> []" and len: "length ?sq = length (flat a)"
    using assms by auto
  have "np_mean (np_square (np_subtract a b)) = Finite (sum_list ?sq / real (length (flat a)))"
    unfolding np_mean_def flat_square_diff using ne len by simp
  moreover have "0 \<le> sum_list ?sq / real (length (flat a))"
    using nn by simp
  ultimately show ?thesis by (simp add: rms_spec_def not_less)
qed

lemma rms_spec_nonneg: "0 \<le> rms_spec xs ys"
  unfolding rms_spec_def
  by (auto intro!: sum_list_nonneg divide_nonneg_nonneg)

lemma sumsq_nonneg: "0 \<le> sumsq xs"
  unfolding sumsq_def by (induction xs) simp_all

lemma sumsq_zero_iff: "sumsq xs = 0 \<longleftrightarrow> list_all (\<lambda>x. x = 0) xs"
proof (induction xs)
  case Nil
  show ?case by (simp add: sumsq_def)
next
  case (Cons x xs)
  have "0 \<le> sumsq xs" by (rule sumsq_nonneg)
  moreover have "sumsq (x # xs) = x ^ 2 + sumsq xs" by (simp add: sumsq_def)
  moreover have "0 \<le> x ^ 2" by simp
  ultimately have "sumsq (x # xs) = 0 \<longleftrightarrow> x = 0 \<and> sumsq xs = 0"
    by (smt (verit) zero_eq_power2)
  with Cons show ?case by simp
qed


lemma dot_zero_left: "list_all (\<lambda>x. x = 0) xs \<Longrightarrow> dot xs ys = 0"
  unfolding dot_def
proof (induction xs arbitrary: ys)
  case Nil
  show ?case by simp
next
  case (Cons x xs)
  then show ?case by (cases ys) simp_all
qed

lemma dot_zero_right: "list_all (\<lambda>y. y = 0) ys \<Longrightarrow> dot xs ys = 0"
  unfolding dot_def
proof (induction ys arbitrary: xs)
  case Nil
  show ?case by simp
next
  case (Cons y ys)
  then show ?case by (cases xs) simp_all
qed


lemma norm_scipy_sumsq: "norm_scipy a = sqrt (sumsq (flat a))"
  by (simp add: norm_scipy_def sumsq_def)

lemma np_correlate_same_length:
  "length a = length v \<Longrightarrow> a \<noteq> [] \<Longrightarrow> np_correlate a v = Inr [dot a v]"
  by (auto simp: np_correlate_def)

lemma cosine_code:
  assumes "check_stc s1 s2 = Inr ()"
    and "length (flat (data s1)) = length (flat (data s2))"
    and "flat (data s1) \<noteq> []"
  shows "source_estimate_quantification s1 s2 ''cosine'' src =
           Inr (Array1 [np_rsub1 (np_divide (dot (flat (data s1)) (flat (data s2)))
                                    (norm_scipy (data s1) * norm_scipy (data s2)))])"
  using assms
  by (simp add: source_estimate_quantification_def known_metrics_def flatten_def
      np_correlate_same_length Let_def)



section \<open>The compatibility check\<close>

text \<open>
  Claim C1. For two source estimates of equal shape the check should raise the time
  error whenever the time arrays are not element-wise equal. The source tests
  \<^verbatim>\<open>np.all(stc1.times != stc2.times)\<close>, which holds only when every pair of time stamps
  differs: with times \<open>[0, 1]\<close> against \<open>[0, 2]\<close> (one pair equal, one different) the
  check passes and the \<open>rms\<close> of the two estimates is returned.
\<close>

theorem check_stc_partial_time_mismatch_passes:
  "times_stc (mk_stc (1, 2) [1, 2] [0, 1]) \<noteq> times_stc (mk_stc (1, 2) [1, 2] [0, 2])
   \<and> shape (data (mk_stc (1, 2) [1, 2] [0, 1])) = shape (data (mk_stc (1, 2) [1, 2] [0, 2]))
   \<and> check_stc (mk_stc (1, 2) [1, 2] [0, 1]) (mk_stc (1, 2) [1, 2] [0, 2]) = Inr ()
   \<and> source_estimate_quantification (mk_stc (1, 2) [1, 2] [0, 1]) (mk_stc (1, 2) [1, 2] [0, 2])
        ''rms'' (None :: unit option) = Inr (Scalar (Finite 0))"
  by (simp add: mk_stc_def check_stc_def np_not_equal_def np_all_def
      source_estimate_quantification_def known_metrics_def
      np_subtract_def np_square_def np_mean_def)

section \<open>Dispatch on the metric name\<close>

text \<open>
  Claim C7. A metric name other than \<open>rms\<close>, \<open>cosine\<close>, \<open>distance_err\<close> and
  \<open>weighted_distance_err\<close> is rejected with the unknown-metric error, whatever the two
  estimates and the source space are (nothing else is looked at), and the message of
  the error contains each accepted name in double quotes.
\<close>

theorem unknown_metric_rejected:
  assumes "metric \<notin> {''rms'', ''cosine'', ''distance_err'', ''weighted_distance_err''}"
  shows \<open>source_estimate_quantification stc1 stc2 metric src = Inl UnknownMetric
         \<and> UnknownMetric = ValueError metric_msg
         \<and> sublist ''"rms"'' metric_msg
         \<and> sublist ''"cosine"'' metric_msg
         \<and> sublist ''"distance_err"'' metric_msg
         \<and> sublist ''"weighted_distance_err"'' metric_msg\<close>
proof -
  have \<open>metric_msg = ''metric must be a str from the known metrics: '' @ ''"rms"''
          @ '', "cosine", "distance_err", "weighted_distance_err" or "..."''\<close>
    by (simp add: metric_msg_def)
  then have 1: \<open>sublist ''"rms"'' metric_msg\<close>
    unfolding sublist_def by blast
  have \<open>metric_msg = ''metric must be a str from the known metrics: "rms", '' @ ''"cosine"''
          @ '', "distance_err", "weighted_distance_err" or "..."''\<close>
    by (simp add: metric_msg_def)
  then have 2: \<open>sublist ''"cosine"'' metric_msg\<close>
    unfolding sublist_def by blast
  have \<open>metric_msg = ''metric must be a str from the known metrics: "rms", "cosine", ''
          @ ''"distance_err"'' @ '', "weighted_distance_err" or "..."''\<close>
    by (simp add: metric_msg_def)
  then have 3: \<open>sublist ''"distance_err"'' metric_msg\<close>
    unfolding sublist_def by blast
  have \<open>metric_msg = ''metric must be a str from the known metrics: "rms", "cosine", "distance_err", ''
          @ ''"weighted_distance_err"'' @ '' or "..."''\<close>
    by (simp add: metric_msg_def)
  then have 4: \<open>sublist ''"weighted_distance_err"'' metric_msg\<close>
    unfolding sublist_def by blast
  have "source_estimate_quantification stc1 stc2 metric src = Inl UnknownMetric"
    using assms
    by (simp add: source_estimate_quantification_def known_metrics_def UnknownMetric_def)
  with 1 2 3 4 show ?thesis by (simp add: UnknownMetric_def)
qed

theorem unknown_metric_rejected_witness:
  \<open>''bogus'' \<notin> {''rms'', ''cosine'', ''distance_err'', ''weighted_distance_err''}
   \<and> source_estimate_quantification (mk_stc (2, 3) [1, 2, 3, 4, 5, 6] [0, 1, 2])
        (mk_stc (3, 2) [1, 2, 3, 4, 5, 6] [0, 1]) ''bogus'' (None :: unit option)
      = Inl (ValueError metric_msg)
   \<and> sublist ''"rms"'' metric_msg\<close>
proof -
  have h: "''bogus'' \<notin> {''rms'', ''cosine'', ''distance_err'', ''weighted_distance_err''}"
    by simp
  show ?thesis
    using h unknown_metric_rejected [OF h, of "mk_stc (2, 3) [1, 2, 3, 4, 5, 6] [0, 1, 2]"
        "mk_stc (3, 2) [1, 2, 3, 4, 5, 6] [0, 1]" "None :: unit option"]
    by simp
qed

text \<open>
  Claim C8. A distance metric requested without a source space is rejected with the
  missing-source-space error, whatever the shapes and times of the two estimates are.
\<close>

theorem distance_metric_needs_src:
  assumes "metric = ''distance_err'' \<or> metric = ''weighted_distance_err''"
  shows "source_estimate_quantification stc1 stc2 metric None = Inl MissingSourceSpace"
  using assms
  by (auto simp: source_estimate_quantification_def known_metrics_def MissingSourceSpace_def)

theorem distance_metric_needs_src_witness:
  "source_estimate_quantification (mk_stc (2, 3) [1, 2, 3, 4, 5, 6] [0, 1, 2])
     (mk_stc (3, 2) [1, 2, 3, 4, 5, 6] [5, 7]) ''distance_err'' (None :: unit option)
   = Inl (ValueError src_msg)
   \<and> source_estimate_quantification (mk_stc (1, 1) [1] [0])
     (mk_stc (1, 1) [1] [0]) ''weighted_distance_err'' (None :: unit option)
   = Inl (ValueError src_msg)"
  using distance_metric_needs_src [of "''distance_err''"
      "mk_stc (2, 3) [1, 2, 3, 4, 5, 6] [0, 1, 2]" "mk_stc (3, 2) [1, 2, 3, 4, 5, 6] [5, 7]"]
    distance_metric_needs_src [of "''weighted_distance_err''"
      "mk_stc (1, 1) [1] [0]" "mk_stc (1, 1) [1] [0]"]
  by (simp add: MissingSourceSpace_def)

text \<open>
  Claim C2. A distance metric requested with a source space on compatible estimates
  must end in an explicit not-implemented error and never hand back an ordinary
  result. The docstring of the function announces a score (\<^verbatim>\<open>float | array\<close>) and
  describes \<^verbatim>\<open>distance_err\<close> as the distance between the most active dipoles; the
  two names are accepted and a source space is demanded for them. After the validation,
  however, the function has no branch for them and ends without a \<^verbatim>\<open>return\<close>: the
  call raises nothing and silently yields \<^verbatim>\<open>None\<close>, as the evaluation at a concrete
  input shows.
\<close>

theorem distance_metric_no_error:
  "check_stc (mk_stc (1, 2) [1, 2] [0, 1]) (mk_stc (1, 2) [3, 4] [0, 1]) = Inr ()
   \<and> \<not> isl (source_estimate_quantification (mk_stc (1, 2) [1, 2] [0, 1])
            (mk_stc (1, 2) [3, 4] [0, 1]) ''distance_err'' (Some ()))
   \<and> source_estimate_quantification (mk_stc (1, 2) [1, 2] [0, 1])
        (mk_stc (1, 2) [3, 4] [0, 1]) ''distance_err'' (Some ()) = Inr PyNone"
  by (simp add: mk_stc_def check_stc_def np_not_equal_def np_all_def
      source_estimate_quantification_def known_metrics_def)

text \<open>
  Claim C9, as stated: estimates of different shapes fail with the shape error for
  every known metric. The source tests the source space of a distance metric before it
  compares the shapes, so with shapes \<open>(2, 3)\<close> and \<open>(3, 2)\<close>, metric \<open>distance_err\<close>
  and no source space the error is the missing-source-space one.
\<close>

theorem shape_mismatch_after_src_check:
  "shape (data (mk_stc (2, 3) [1, 2, 3, 4, 5, 6] [0, 1, 2]))
     \<noteq> shape (data (mk_stc (3, 2) [1, 2, 3, 4, 5, 6] [0, 1]))
   \<and> ''distance_err'' \<in> set known_metrics
   \<and> source_estimate_quantification (mk_stc (2, 3) [1, 2, 3, 4, 5, 6] [0, 1, 2])
        (mk_stc (3, 2) [1, 2, 3, 4, 5, 6] [0, 1]) ''distance_err'' (None :: unit option)
      = Inl MissingSourceSpace
   \<and> MissingSourceSpace \<noteq> ShapeMismatch"
  by (simp add: mk_stc_def source_estimate_quantification_def known_metrics_def
      MissingSourceSpace_def ShapeMismatch_def src_msg_def shape_msg_def)

text \<open>
  Claim C9, amended: estimates of different shapes fail with the shape error for the
  metrics \<open>rms\<close> and \<open>cosine\<close>, and for a distance metric that comes with a source
  space. The error does not depend on the elements or the times: the shapes are compared
  before anything is computed.
\<close>

theorem shape_mismatch_rejected:
  assumes "shape (data stc1) \<noteq> shape (data stc2)"
    and "metric \<in> {''rms'', ''cosine''}
         \<or> (metric \<in> {''distance_err'', ''weighted_distance_err''} \<and> src \<noteq> None)"
  shows "source_estimate_quantification stc1 stc2 metric src = Inl ShapeMismatch"
  using assms
  by (auto simp: source_estimate_quantification_def known_metrics_def check_stc_def
      ShapeMismatch_def)

theorem shape_mismatch_rejected_witness:
  "source_estimate_quantification (mk_stc (2, 3) [1, 2, 3, 4, 5, 6] [0, 1, 2])
     (mk_stc (3, 2) [1, 2, 3, 4, 5, 6] [0, 1]) ''rms'' (None :: unit option)
   = Inl (ValueError shape_msg)
   \<and> source_estimate_quantification (mk_stc (2, 3) [1, 2, 3, 4, 5, 6] [0, 1, 2])
     (mk_stc (3, 2) [1, 2, 3, 4, 5, 6] [0, 1]) ''distance_err'' (Some ())
   = Inl (ValueError shape_msg)"
proof -
  have h: "shape (data (mk_stc (2, 3) [1, 2, 3, 4, 5, 6] [0, 1, 2]))
             \<noteq> shape (data (mk_stc (3, 2) [1, 2, 3, 4, 5, 6] [0, 1]))"
    by (simp add: mk_stc_def)
  show ?thesis
    using shape_mismatch_rejected [OF h, of "''rms''" "None :: unit option"]
      shape_mismatch_rejected [OF h, of "''distance_err''" "Some ()"]
    by (simp add: ShapeMismatch_def)
qed

section \<open>The \<open>rms\<close> metric\<close>

text \<open>
  Claim C3, as stated: for every compatible pair the \<open>rms\<close> result is a number
  \<open>\<ge> 0\<close>. On a data matrix without elements (no locations, shape \<open>(0, 1)\<close>) the
  mean is \<open>0 / 0\<close> and the result is \<open>nan\<close>, which is not \<open>\<ge> 0\<close>.
\<close>

theorem rms_empty_is_nan:
  "wf_stc (mk_stc (0, 1) [] [0])
   \<and> check_stc (mk_stc (0, 1) [] [0]) (mk_stc (0, 1) [] [0]) = Inr ()
   \<and> source_estimate_quantification (mk_stc (0, 1) [] [0]) (mk_stc (0, 1) [] [0])
        ''rms'' (None :: unit option) = Inr (Scalar NaN)"
  by (simp add: mk_stc_def wf_stc_def wf_ndarray_def check_stc_def np_not_equal_def
      np_all_def source_estimate_quantification_def known_metrics_def
      np_subtract_def np_square_def np_mean_def)

text \<open>
  Claim C3, amended: for every compatible pair of source estimates whose data matrices
  have at least one element, the \<open>rms\<close> result is the scalar
  \<open>sqrt (mean ((A - B)\<^sup>2))\<close>, and it is \<open>\<ge> 0\<close>.
\<close>

theorem rms_value:
  assumes "check_stc stc1 stc2 = Inr ()" "wf_stc stc1" "wf_stc stc2"
    and "flat (data stc1) \<noteq> []"
  shows "source_estimate_quantification stc1 stc2 ''rms'' src
           = Inr (Scalar (Finite (rms_spec (flat (data stc1)) (flat (data stc2)))))
         \<and> 0 \<le> rms_spec (flat (data stc1)) (flat (data stc2))"
proof -
  have len: "length (flat (data stc1)) = length (flat (data stc2))"
    using assms by (simp add: compatible_length)
  have "np_sqrt (np_mean (np_square (np_subtract (data stc1) (data stc2))))
          = Finite (rms_spec (flat (data stc1)) (flat (data stc2)))"
    using len assms(4) by (rule mean_square_diff)
  then show ?thesis using assms(1) by (simp add: rms_code rms_spec_nonneg)
qed

theorem rms_value_witness:
  "check_stc (mk_stc (1, 2) [4, 2] [0, 1]) (mk_stc (1, 2) [1, 6] [0, 1]) = Inr ()
   \<and> wf_stc (mk_stc (1, 2) [4, 2] [0, 1]) \<and> wf_stc (mk_stc (1, 2) [1, 6] [0, 1])
   \<and> flat (data (mk_stc (1, 2) [4, 2] [0, 1])) \<noteq> []
   \<and> source_estimate_quantification (mk_stc (1, 2) [4, 2] [0, 1]) (mk_stc (1, 2) [1, 6] [0, 1])
        ''rms'' (None :: unit option) = Inr (Scalar (Finite (sqrt (25 / 2))))"
proof -
  let ?a = "mk_stc (1, 2) [4, 2] [0, 1]" and ?b = "mk_stc (1, 2) [1, 6] [0, 1]"
  have c: "check_stc ?a ?b = Inr ()"
    by (simp add: mk_stc_def check_stc_def np_not_equal_def np_all_def)
  have wa: "wf_stc ?a" and wb: "wf_stc ?b"
    by (simp_all add: mk_stc_def wf_stc_def wf_ndarray_def)
  have ne: "flat (data ?a) \<noteq> []"
    by (simp add: mk_stc_def)
  have "rms_spec (flat (data ?a)) (flat (data ?b)) = sqrt (25 / 2)"
    by (simp add: mk_stc_def rms_spec_def)
  with c wa wb ne rms_value [OF c wa wb ne, of "None :: unit option"]
  show ?thesis by simp
qed

section \<open>The \<open>cosine\<close> metric\<close>




text \<open>
  Claim C10. With metric \<open>cosine\<close> and a data matrix whose elements are all zero
  (a matrix that has elements), the divisor \<open>norm(data1) * norm(data2)\<close> is zero and
  the division is carried out without a guard: the call raises nothing and returns
  \<open>nan\<close>, the result of \<open>0 / 0\<close>. Such inputs exist among the compatible,
  well-formed pairs.
\<close>

theorem cosine_zero_divisor:
  assumes "check_stc stc1 stc2 = Inr ()" "wf_stc stc1" "wf_stc stc2"
    and "flat (data stc1) \<noteq> []"
    and "all_zero (data stc1) \<or> all_zero (data stc2)"
  shows "norm_scipy (data stc1) * norm_scipy (data stc2) = 0
         \<and> source_estimate_quantification stc1 stc2 ''cosine'' src = Inr (Array1 [NaN])
         \<and> (\<exists>a b. check_stc a b = Inr () \<and> wf_stc a \<and> wf_stc b
               \<and> norm_scipy (data a) * norm_scipy (data b) = 0
               \<and> source_estimate_quantification a b ''cosine'' (None :: unit option)
                   = Inr (Array1 [NaN]))"
proof -
  let ?A = "flat (data stc1)" and ?B = "flat (data stc2)"
  have len: "length ?A = length ?B"
    using assms(1-3) by (rule compatible_length)
  have d: "dot ?A ?B = 0"
    using assms(5) by (auto simp: all_zero_def dot_zero_left dot_zero_right)
  have n: "norm_scipy (data stc1) * norm_scipy (data stc2) = 0"
    using assms(5) by (auto simp: all_zero_def norm_scipy_sumsq sumsq_zero_iff)
  have r: "source_estimate_quantification stc1 stc2 ''cosine'' src = Inr (Array1 [NaN])"
    unfolding cosine_code [OF assms(1) len assms(4)] using d n
    by (simp add: np_divide_def)
  let ?z = "mk_stc (1, 2) [0, 0] [0, 1]" and ?o = "mk_stc (1, 2) [1, 2] [0, 1]"
  have "check_stc ?z ?o = Inr ()"
    by (simp add: mk_stc_def check_stc_def np_not_equal_def np_all_def)
  moreover have "wf_stc ?z" "wf_stc ?o"
    by (simp_all add: mk_stc_def wf_stc_def wf_ndarray_def)
  moreover have "norm_scipy (data ?z) * norm_scipy (data ?o) = 0"
    by (simp add: mk_stc_def norm_scipy_def)
  moreover have "source_estimate_quantification ?z ?o ''cosine'' (None :: unit option)
                   = Inr (Array1 [NaN])"
    by (simp add: mk_stc_def check_stc_def np_not_equal_def np_all_def
        source_estimate_quantification_def known_metrics_def flatten_def
        np_correlate_def dot_def norm_scipy_def np_divide_def)
  ultimately have "\<exists>a b. check_stc a b = Inr () \<and> wf_stc a \<and> wf_stc b
               \<and> norm_scipy (data a) * norm_scipy (data b) = 0
               \<and> source_estimate_quantification a b ''cosine'' (None :: unit option)
                   = Inr (Array1 [NaN])"
    by blast
  with n r show ?thesis by blast
qed

theorem cosine_zero_divisor_witness:
  "check_stc (mk_stc (2, 1) [5, 7] [3]) (mk_stc (2, 1) [0, 0] [3]) = Inr ()
   \<and> wf_stc (mk_stc (2, 1) [5, 7] [3]) \<and> wf_stc (mk_stc (2, 1) [0, 0] [3])
   \<and> flat (data (mk_stc (2, 1) [5, 7] [3])) \<noteq> []
   \<and> all_zero (data (mk_stc (2, 1) [0, 0] [3]))
   \<and> norm_scipy (data (mk_stc (2, 1) [5, 7] [3])) * norm_scipy (data (mk_stc (2, 1) [0, 0] [3])) = 0
   \<and> source_estimate_quantification (mk_stc (2, 1) [5, 7] [3]) (mk_stc (2, 1) [0, 0] [3])
        ''cosine'' (None :: unit option) = Inr (Array1 [NaN])"
proof -
  let ?a = "mk_stc (2, 1) [5, 7] [3]" and ?z = "mk_stc (2, 1) [0, 0] [3]"
  have c: "check_stc ?a ?z = Inr ()"
    by (simp add: mk_stc_def check_stc_def np_not_equal_def np_all_def)
  have wa: "wf_stc ?a" and wz: "wf_stc ?z"
    by (simp_all add: mk_stc_def wf_stc_def wf_ndarray_def)
  have ne: "flat (data ?a) \<noteq> []"
    by (simp add: mk_stc_def)
  have z: "all_zero (data ?z)"
    by (simp add: mk_stc_def all_zero_def)
  then have z': "all_zero (data ?a) \<or> all_zero (data ?z)" ..
  from cosine_zero_divisor [OF c wa wz ne z', of "None :: unit option"] c wa wz ne z
  show ?thesis by blast
qed

section \<open>Identical inputs\<close>




end
